theory Spec2Isabelle
  imports Complex_Main
begin

section \<open>The framework objects the two classes work on\<close>

text \<open>
  Both classes of KD_Lib are glue over a numeric framework. The framework's objects are
  taken as parameters: a model is its state dict (\<open>'w\<close>), its train/eval flag and its
  forward function; tensors (\<open>'t\<close>), batch inputs (\<open>'x\<close>), losses (\<open>'l\<close>) and gradients
  (\<open>'g\<close>) are opaque. Models are objects with identity: they live in a heap and the
  classes hold references to them. Python exceptions are values: a method returns
  \<open>Return v s\<close>, or \<open>Raise e s\<close> with the state reached when the exception left it.

  The framework's calls are total. Losses and gradients are of any type with a zero and an
  addition, of which nothing is assumed, so that an accumulated loss is the left-to-right
  sum the source computes. A quotient of two Python ints is a rational. A forward pass
  reads the model and does not change it. A loader yields the same batches on every
  pass. The number of epochs is a count.
\<close>

datatype error =
  NotImplementedError | ZeroDivisionError | AttributeError | FileNotFoundError

datatype ('a, 's) result = Return 'a 's | Raise error 's

type_synonym ref = nat

text \<open>
  What calling a model gives: a tensor, or a tuple of tensors whose first entry is the
  one the classes read.
\<close>

datatype 't net_output = Tensor 't | Tuple 't "'t list"

record ('w, 'x, 't) nn_module =
  weights :: 'w
  training :: bool
  net :: "'w \<Rightarrow> bool \<Rightarrow> 'x \<Rightarrow> 't net_output"

text \<open>
  A data loader: the dataset it was built on (only its length is read) and the batches
  \<open>(data, label)\<close> one pass over it yields; labels are class indices, one per row.
\<close>

record ('s, 'x) data_loader =
  dataset :: "'s list"
  batches :: "('x \<times> nat list) list"

text \<open>
  An optimizer: the model whose parameters it was built on, the gradients held on those
  parameters, its own state, and its update rule.
\<close>

record ('w, 'g, 'o) optimizer =
  params :: ref
  grads :: 'g
  opt_state :: 'o
  update :: "'o \<Rightarrow> 'g \<Rightarrow> 'w \<Rightarrow> 'o \<times> 'w"

text \<open>The framework's functions the source calls.\<close>

record ('w, 't, 'l, 'g) torch =
  argmax :: "'t \<Rightarrow> nat list"
  cross_entropy :: "'t \<Rightarrow> nat list \<Rightarrow> 'l"
  grad_of :: "'l \<Rightarrow> 'g"
  pickle :: "'w \<Rightarrow> string"

text \<open>What \<open>print\<close> writes, one constructor per format string of the source.\<close>

datatype 'l message =
  Dashes
  | Training_Teacher
  | Training_student
  | Epoch_Loss_Accuracy nat 'l rat
  | Accuracy rat
  | Size_of_original_model rat
  | Size_of_quantized_model rat
  | Original_Model_Acc_Time rat rat
  | Quantized_Model_Acc_Time rat rat

text \<open>
  The steps of the training loops, logged in the order they run; \<open>Track_best\<close> is the
  comparison of the epoch's accuracy with the running best.
\<close>

datatype event =
  Forward ref
  | Loss
  | Zero_grad
  | Backward
  | Step
  | Track_best
  | Load_state_dict ref
  | Save string
  | Plot

text \<open>
  Everything outside the instance: the heap of models, the files by path, standard output,
  the arrays handed to \<open>plt.plot\<close>, the wall clock (its readings and how many were taken)
  and the log of training steps.
\<close>

record ('w, 'x, 't, 'l) world =
  heap :: "ref \<Rightarrow> ('w, 'x, 't) nn_module"
  files :: "string \<rightharpoonup> string"
  stdout :: "'l message list"
  plots :: "'l list list"
  wall :: "nat \<Rightarrow> rat"
  ticks :: nat
  events :: "event list"

definition state_dict :: "('w, 'x, 't) nn_module \<Rightarrow> 'w" where
  "state_dict m = weights m"

definition deepcopy :: "'a \<Rightarrow> 'a" where
  "deepcopy v = v"

definition module_eval :: "('w, 'x, 't) nn_module \<Rightarrow> ('w, 'x, 't) nn_module" where
  "module_eval m = m\<lparr>training := False\<rparr>"

definition module_train :: "('w, 'x, 't) nn_module \<Rightarrow> ('w, 'x, 't) nn_module" where
  "module_train m = m\<lparr>training := True\<rparr>"

definition call :: "('w, 'x, 't) nn_module \<Rightarrow> 'x \<Rightarrow> 't net_output" where
  "call m x = net m (weights m) (training m) x"

definition load_state_dict ::
  "('w, 'x, 't) nn_module \<Rightarrow> 'w \<Rightarrow> ('w, 'x, 't) nn_module" where
  "load_state_dict m sd = m\<lparr>weights := sd\<rparr>"

definition on_heap ::
  "ref \<Rightarrow> (('w, 'x, 't) nn_module \<Rightarrow> ('w, 'x, 't) nn_module) \<Rightarrow>
   ('w, 'x, 't, 'l) world \<Rightarrow> ('w, 'x, 't, 'l) world" where
  "on_heap r f w = w\<lparr>heap := (heap w)(r := f (heap w r))\<rparr>"

definition print :: "'l message \<Rightarrow> ('w, 'x, 't, 'l) world \<Rightarrow> ('w, 'x, 't, 'l) world" where
  "print msg w = w\<lparr>stdout := stdout w @ [msg]\<rparr>"

definition emit :: "event \<Rightarrow> ('w, 'x, 't, 'l) world \<Rightarrow> ('w, 'x, 't, 'l) world" where
  "emit e w = w\<lparr>events := events w @ [e]\<rparr>"

definition torch_save ::
  "('w, 't, 'l, 'g) torch \<Rightarrow> 'w \<Rightarrow> string \<Rightarrow> ('w, 'x, 't, 'l) world \<Rightarrow> ('w, 'x, 't, 'l) world" where
  "torch_save F sd pth w = w\<lparr>files := (files w)(pth \<mapsto> pickle F sd)\<rparr>"

definition getsize :: "string \<Rightarrow> ('w, 'x, 't, 'l) world \<Rightarrow> nat option" where
  "getsize pth w = map_option length (files w pth)"

definition os_remove :: "string \<Rightarrow> ('w, 'x, 't, 'l) world \<Rightarrow> ('w, 'x, 't, 'l) world option" where
  "os_remove pth w =
     (case files w pth of
        None \<Rightarrow> None
      | Some _ \<Rightarrow> Some (w\<lparr>files := (files w)(pth := None)\<rparr>))"


text \<open>\<open>if isinstance(out, tuple): out = out[0]\<close>\<close>

definition first_output :: "'t net_output \<Rightarrow> 't" where
  "first_output out = (case out of Tensor t \<Rightarrow> t | Tuple t _ \<Rightarrow> t)"

text \<open>
  \<open>pred = out.argmax(dim=1, keepdim=True)\<close> and
  \<open>pred.eq(label.view_as(pred)).sum().item()\<close>: the number of rows whose predicted class is
  the label. The label tensor holds one class per row of the output: the framework accepts
  no other.
\<close>

definition n_correct :: "('w, 't, 'l, 'g) torch \<Rightarrow> 't \<Rightarrow> nat list \<Rightarrow> nat" where
  "n_correct F out label =
     (let pred = argmax F out
      in length (filter (\<lambda>(p, y). p = y) (zip pred label)))"

text \<open>\<open>correct / length_of_dataset\<close> on two Python ints: true division, raising on zero.\<close>

definition true_div :: "nat \<Rightarrow> nat \<Rightarrow> error + rat" where
  "true_div a b = (if b = 0 then Inl ZeroDivisionError else Inr (of_nat a / of_nat b))"

section \<open>Quantization/common/base_class.py: Quantizer\<close>

record ('s, 'x, 'q, 'o, 'c) quantizer =
  model :: ref
  quantized_model :: ref
  qconfig :: 'q
  train_loader :: "('s, 'x) data_loader option"
  test_loader :: "('s, 'x) data_loader option"
  optimizer :: "'o option"
  criterion :: "'c option"
  device :: string

definition Quantizer_init ::
  "ref \<Rightarrow> 'q \<Rightarrow> ('s, 'x) data_loader option \<Rightarrow> ('s, 'x) data_loader option \<Rightarrow>
   'o option \<Rightarrow> 'c option \<Rightarrow> string \<Rightarrow> ('s, 'x, 'q, 'o, 'c) quantizer" where
  "Quantizer_init model' qconfig' train_loader' test_loader' optimizer' criterion' device' =
     \<lparr>model = model', quantized_model = model', qconfig = qconfig',
      train_loader = train_loader', test_loader = test_loader',
      optimizer = optimizer', criterion = criterion', device = device'\<rparr>"

definition quantize ::
  "('s, 'x, 'q, 'o, 'c) quantizer \<Rightarrow> ('w, 'x, 't, 'l) world \<Rightarrow>
   (unit, ('s, 'x, 'q, 'o, 'c) quantizer \<times> ('w, 'x, 't, 'l) world) result" where
  "quantize self w = Raise NotImplementedError (self, w)"

definition get_size_of_model ::
  "('w, 't, 'l, 'g) torch \<Rightarrow> ('s, 'x, 'q, 'o, 'c) quantizer \<Rightarrow> ref \<Rightarrow> ('w, 'x, 't, 'l) world \<Rightarrow>
   (rat, ('s, 'x, 'q, 'o, 'c) quantizer \<times> ('w, 'x, 't, 'l) world) result" where
  "get_size_of_model F self m w =
     (let w1 = torch_save F (state_dict (heap w m)) ''temp.p'' w
      in case getsize ''temp.p'' w1 of
           None \<Rightarrow> Raise FileNotFoundError (self, w1)
         | Some n \<Rightarrow>
             (let model_size = of_nat n / 1000000
              in case os_remove ''temp.p'' w1 of
                   None \<Rightarrow> Raise FileNotFoundError (self, w1)
                 | Some w2 \<Rightarrow> Return model_size (self, w2)))"


text \<open>The loop of \<open>_evaluate_model\<close>, under \<open>torch.no_grad()\<close>.\<close>

fun count_correct ::
  "('w, 't, 'l, 'g) torch \<Rightarrow> ('w, 'x, 't) nn_module \<Rightarrow> ('x \<times> nat list) list \<Rightarrow> nat \<Rightarrow> nat" where
  "count_correct F m [] correct = correct"
| "count_correct F m ((image', target) # rest) correct =
     (let out = first_output (call m image')
      in count_correct F m rest (correct + n_correct F out target))"

definition evaluate_model ::
  "('w, 't, 'l, 'g) torch \<Rightarrow> ('s, 'x, 'q, 'o, 'c) quantizer \<Rightarrow> ref \<Rightarrow> ('w, 'x, 't, 'l) world \<Rightarrow>
   (rat, ('s, 'x, 'q, 'o, 'c) quantizer \<times> ('w, 'x, 't, 'l) world) result" where
  "evaluate_model F self m w =
     (let w1 = on_heap m module_eval w;
          correct = 0
      in case test_loader self of
           None \<Rightarrow> Raise AttributeError (self, w1)
         | Some ld \<Rightarrow>
             (let len_dataset = length (dataset ld);
                  correct = count_correct F (heap w1 m) (batches ld) correct
              in case true_div correct len_dataset of
                   Inl e \<Rightarrow> Raise e (self, w1)
                 | Inr acc \<Rightarrow> Return acc (self, w1)))"



section \<open>common/base_class.py: BaseClass\<close>

text \<open>
  The two attributes \<open>best_teacher_model_weights\<close> and \<open>best_student_model_weights\<close> do not
  exist until the training method that assigns them has run: \<open>None\<close> is the absent
  attribute.
\<close>

record ('w, 's, 'x, 'g, 'o) base_class =
  teacher_model :: ref
  student_model :: ref
  train_loader :: "('s, 'x) data_loader"
  val_loader :: "('s, 'x) data_loader"
  optimizer_teacher :: "('w, 'g, 'o) optimizer"
  optimizer_student :: "('w, 'g, 'o) optimizer"
  loss :: string
  temp :: rat
  distl_weight :: rat
  device :: string
  best_teacher_model_weights :: "'w option"
  best_student_model_weights :: "'w option"

definition BaseClass_init ::
  "ref \<Rightarrow> ref \<Rightarrow> ('s, 'x) data_loader \<Rightarrow> ('s, 'x) data_loader \<Rightarrow>
   ('w, 'g, 'o) optimizer \<Rightarrow> ('w, 'g, 'o) optimizer \<Rightarrow> string \<Rightarrow> rat \<Rightarrow> rat \<Rightarrow> string \<Rightarrow>
   ('w, 's, 'x, 'g, 'o) base_class" where
  "BaseClass_init teacher_model' student_model' train_loader' val_loader'
       optimizer_teacher' optimizer_student' loss' temp' distil_weight device' =
     \<lparr>teacher_model = teacher_model', student_model = student_model',
      train_loader = train_loader', val_loader = val_loader',
      optimizer_teacher = optimizer_teacher', optimizer_student = optimizer_student',
      loss = loss', temp = temp', distl_weight = distil_weight, device = device',
      best_teacher_model_weights = None, best_student_model_weights = None\<rparr>"

text \<open>\<open>tensor.to(device)\<close> moves a tensor and leaves its values as they are.\<close>

definition to :: "'a \<Rightarrow> string \<Rightarrow> 'a" where
  "to v dev = v"

text \<open>
  \<open>optimizer.zero_grad()\<close>, \<open>loss.backward()\<close> and \<open>optimizer.step()\<close>: the gradients of the
  optimizer's parameters are cleared, the gradient of the loss is added to them, and the
  update rule rewrites the parameters of the model the optimizer was built on.
\<close>

definition zero_grad :: "('w, 'g::zero, 'o) optimizer \<Rightarrow> ('w, 'g, 'o) optimizer" where
  "zero_grad opt = opt\<lparr>grads := 0\<rparr>"

definition backward ::
  "('w, 't, 'l, 'g::plus) torch \<Rightarrow> 'l \<Rightarrow> ('w, 'g, 'o) optimizer \<Rightarrow> ('w, 'g, 'o) optimizer" where
  "backward F l opt = opt\<lparr>grads := grads opt + grad_of F l\<rparr>"

definition step ::
  "('w, 'g, 'o) optimizer \<Rightarrow> ('w, 'x, 't, 'l) world \<Rightarrow>
   ('w, 'g, 'o) optimizer \<times> ('w, 'x, 't, 'l) world" where
  "step opt w =
     (let (st, sd) = update opt (opt_state opt) (grads opt) (weights (heap w (params opt)))
      in (opt\<lparr>opt_state := st\<rparr>, on_heap (params opt) (\<lambda>m. m\<lparr>weights := sd\<rparr>) w))"

definition plt_plot :: "'l list \<Rightarrow> ('w, 'x, 't, 'l) world \<Rightarrow> ('w, 'x, 't, 'l) world" where
  "plt_plot arr w = w\<lparr>plots := plots w @ [arr]\<rparr>"

subsection \<open>train_teacher\<close>

text \<open>The body of \<open>for (data, label) in self.train_loader\<close>.\<close>

definition teacher_batch ::
  "('w, 't, 'l::{zero,plus}, 'g::{zero,plus}) torch \<Rightarrow> 'x \<times> nat list \<Rightarrow> 'l \<times> nat \<Rightarrow>
   ('w, 's, 'x, 'g, 'o) base_class \<times> ('w, 'x, 't, 'l) world \<Rightarrow>
   ('l \<times> nat) \<times> ('w, 's, 'x, 'g, 'o) base_class \<times> ('w, 'x, 't, 'l) world" where
  "teacher_batch F batch acc s =
     (case (batch, acc, s) of ((data, label), (epoch_loss, correct), (self, w)) \<Rightarrow>
        (let data = to data (device self);
             label = to label (device self);
             out = call (heap w (teacher_model self)) data;
             w1 = emit (Forward (teacher_model self)) w;
             out = first_output out;
             correct = correct + n_correct F out label;
             l = cross_entropy F out label;
             w2 = emit Loss w1;
             self1 = self\<lparr>optimizer_teacher := zero_grad (optimizer_teacher self)\<rparr>;
             w3 = emit Zero_grad w2;
             self2 = self1\<lparr>optimizer_teacher := backward F l (optimizer_teacher self1)\<rparr>;
             w4 = emit Backward w3;
             (opt, w5) = step (optimizer_teacher self2) w4;
             self3 = self2\<lparr>optimizer_teacher := opt\<rparr>;
             w6 = emit Step w5;
             epoch_loss = epoch_loss + l
         in ((epoch_loss, correct), (self3, w6))))"

fun teacher_batches ::
  "('w, 't, 'l::{zero,plus}, 'g::{zero,plus}) torch \<Rightarrow> ('x \<times> nat list) list \<Rightarrow> 'l \<times> nat \<Rightarrow>
   ('w, 's, 'x, 'g, 'o) base_class \<times> ('w, 'x, 't, 'l) world \<Rightarrow>
   ('l \<times> nat) \<times> ('w, 's, 'x, 'g, 'o) base_class \<times> ('w, 'x, 't, 'l) world" where
  "teacher_batches F [] acc s = (acc, s)"
| "teacher_batches F (batch # rest) acc s =
     (case teacher_batch F batch acc s of (acc', s') \<Rightarrow> teacher_batches F rest acc' s')"

text \<open>
  The body of \<open>for ep in range(epochs)\<close>; the loop's own variables are \<open>best_acc\<close> and
  \<open>loss_arr\<close>.
\<close>

definition teacher_epoch ::
  "('w, 't, 'l::{zero,plus}, 'g::{zero,plus}) torch \<Rightarrow> nat \<Rightarrow> nat \<Rightarrow> rat \<times> 'l list \<Rightarrow>
   ('w, 's, 'x, 'g, 'o) base_class \<times> ('w, 'x, 't, 'l) world \<Rightarrow>
   (rat \<times> 'l list, ('w, 's, 'x, 'g, 'o) base_class \<times> ('w, 'x, 't, 'l) world) result" where
  "teacher_epoch F length_of_dataset ep locals s =
     (case (locals, s) of ((best_acc, loss_arr), (self, w)) \<Rightarrow>
        (case teacher_batches F (batches (train_loader self)) (0, 0) (self, w) of
           ((epoch_loss, correct), (self1, w1)) \<Rightarrow>
             (case true_div correct length_of_dataset of
                Inl e \<Rightarrow> Raise e (self1, w1)
              | Inr epoch_acc \<Rightarrow>
                  (let w2 = emit Track_best w1;
                       (best_acc, self2) =
                          (if epoch_acc > best_acc
                           then (epoch_acc,
                                 self1\<lparr>best_teacher_model_weights :=
                                   Some (deepcopy (state_dict (heap w2 (teacher_model self1))))\<rparr>)
                           else (best_acc, self1));
                       loss_arr = loss_arr @ [epoch_loss];
                       w3 = print (Epoch_Loss_Accuracy (ep + 1) epoch_loss epoch_acc) w2
                   in Return (best_acc, loss_arr) (self2, w3)))))"

fun teacher_epochs ::
  "('w, 't, 'l::{zero,plus}, 'g::{zero,plus}) torch \<Rightarrow> nat \<Rightarrow> nat list \<Rightarrow> rat \<times> 'l list \<Rightarrow>
   ('w, 's, 'x, 'g, 'o) base_class \<times> ('w, 'x, 't, 'l) world \<Rightarrow>
   (rat \<times> 'l list, ('w, 's, 'x, 'g, 'o) base_class \<times> ('w, 'x, 't, 'l) world) result" where
  "teacher_epochs F length_of_dataset [] locals s = Return locals s"
| "teacher_epochs F length_of_dataset (ep # eps) locals s =
     (case teacher_epoch F length_of_dataset ep locals s of
        Raise e s' \<Rightarrow> Raise e s'
      | Return locals' s' \<Rightarrow> teacher_epochs F length_of_dataset eps locals' s')"

definition train_teacher ::
  "('w, 't, 'l::{zero,plus}, 'g::{zero,plus}) torch \<Rightarrow> ('w, 's, 'x, 'g, 'o) base_class \<Rightarrow>
   nat \<Rightarrow> bool \<Rightarrow> bool \<Rightarrow> string \<Rightarrow> ('w, 'x, 't, 'l) world \<Rightarrow>
   (unit, ('w, 's, 'x, 'g, 'o) base_class \<times> ('w, 'x, 't, 'l) world) result" where
  "train_teacher F self epochs plot_losses save_model save_model_pth w =
     (let w1 = on_heap (teacher_model self) module_train w;
          loss_arr = [];
          length_of_dataset = length (dataset (train_loader self));
          best_acc = 0;
          self1 = self\<lparr>best_teacher_model_weights :=
                    Some (deepcopy (state_dict (heap w1 (teacher_model self))))\<rparr>;
          w2 = print Training_Teacher w1
      in case teacher_epochs F length_of_dataset [0..<epochs] (best_acc, loss_arr) (self1, w2) of
           Raise e s' \<Rightarrow> Raise e s'
         | Return (best_acc, loss_arr) (self2, w3) \<Rightarrow>
             (case best_teacher_model_weights self2 of
                None \<Rightarrow> Raise AttributeError (self2, w3)
              | Some best \<Rightarrow>
                  (let w4 = emit (Load_state_dict (teacher_model self2))
                              (on_heap (teacher_model self2) (\<lambda>m. load_state_dict m best) w3);
                       w5 = (if save_model
                             then emit (Save save_model_pth)
                                    (torch_save F (state_dict (heap w4 (teacher_model self2)))
                                       save_model_pth w4)
                             else w4);
                       w6 = (if plot_losses then emit Plot (plt_plot loss_arr w5) else w5)
                   in Return () (self2, w6))))"

subsection \<open>train_student\<close>

text \<open>
  \<open>calculate_kd_loss\<close> is the method subclasses override: the training loop calls whatever
  the instance's class provides, so it is a parameter \<open>kd\<close> of the loop. An override computes
  a loss from its arguments and the instance's settings, or raises. BaseClass's own:
\<close>

definition calculate_kd_loss ::
  "('w, 's, 'x, 'g, 'o) base_class \<Rightarrow> 't net_output \<Rightarrow> 't net_output \<Rightarrow> nat list \<Rightarrow> error + 'l" where
  "calculate_kd_loss self y_pred_student y_pred_teacher y_true = Inl NotImplementedError"

definition student_batch ::
  "('w, 't, 'l::{zero,plus}, 'g::{zero,plus}) torch \<Rightarrow>
   (('w, 's, 'x, 'g, 'o) base_class \<Rightarrow> 't net_output \<Rightarrow> 't net_output \<Rightarrow> nat list \<Rightarrow> error + 'l) \<Rightarrow>
   'x \<times> nat list \<Rightarrow> 'l \<times> nat \<Rightarrow>
   ('w, 's, 'x, 'g, 'o) base_class \<times> ('w, 'x, 't, 'l) world \<Rightarrow>
   ('l \<times> nat, ('w, 's, 'x, 'g, 'o) base_class \<times> ('w, 'x, 't, 'l) world) result" where
  "student_batch F kd batch acc s =
     (case (batch, acc, s) of ((data, label), (epoch_loss, correct), (self, w)) \<Rightarrow>
        (let data = to data (device self);
             label = to label (device self);
             student_out = call (heap w (student_model self)) data;
             w1 = emit (Forward (student_model self)) w;
             teacher_out = call (heap w1 (teacher_model self)) data;
             w2 = emit (Forward (teacher_model self)) w1
         in case kd self student_out teacher_out label of
              Inl e \<Rightarrow> Raise e (self, w2)
            | Inr l \<Rightarrow>
                (let w3 = emit Loss w2;
                     student_out = first_output student_out;
                     correct = correct + n_correct F student_out label;
                     self1 = self\<lparr>optimizer_student := zero_grad (optimizer_student self)\<rparr>;
                     w4 = emit Zero_grad w3;
                     self2 = self1\<lparr>optimizer_student := backward F l (optimizer_student self1)\<rparr>;
                     w5 = emit Backward w4;
                     (opt, w6) = step (optimizer_student self2) w5;
                     self3 = self2\<lparr>optimizer_student := opt\<rparr>;
                     w7 = emit Step w6;
                     epoch_loss = epoch_loss + l
                 in Return (epoch_loss, correct) (self3, w7))))"

fun student_batches ::
  "('w, 't, 'l::{zero,plus}, 'g::{zero,plus}) torch \<Rightarrow>
   (('w, 's, 'x, 'g, 'o) base_class \<Rightarrow> 't net_output \<Rightarrow> 't net_output \<Rightarrow> nat list \<Rightarrow> error + 'l) \<Rightarrow>
   ('x \<times> nat list) list \<Rightarrow> 'l \<times> nat \<Rightarrow>
   ('w, 's, 'x, 'g, 'o) base_class \<times> ('w, 'x, 't, 'l) world \<Rightarrow>
   ('l \<times> nat, ('w, 's, 'x, 'g, 'o) base_class \<times> ('w, 'x, 't, 'l) world) result" where
  "student_batches F kd [] acc s = Return acc s"
| "student_batches F kd (batch # rest) acc s =
     (case student_batch F kd batch acc s of
        Raise e s' \<Rightarrow> Raise e s'
      | Return acc' s' \<Rightarrow> student_batches F kd rest acc' s')"

definition student_epoch ::
  "('w, 't, 'l::{zero,plus}, 'g::{zero,plus}) torch \<Rightarrow>
   (('w, 's, 'x, 'g, 'o) base_class \<Rightarrow> 't net_output \<Rightarrow> 't net_output \<Rightarrow> nat list \<Rightarrow> error + 'l) \<Rightarrow>
   nat \<Rightarrow> nat \<Rightarrow> rat \<times> 'l list \<Rightarrow>
   ('w, 's, 'x, 'g, 'o) base_class \<times> ('w, 'x, 't, 'l) world \<Rightarrow>
   (rat \<times> 'l list, ('w, 's, 'x, 'g, 'o) base_class \<times> ('w, 'x, 't, 'l) world) result" where
  "student_epoch F kd length_of_dataset ep locals s =
     (case (locals, s) of ((best_acc, loss_arr), (self, w)) \<Rightarrow>
        (case student_batches F kd (batches (train_loader self)) (0, 0) (self, w) of
           Raise e s' \<Rightarrow> Raise e s'
         | Return (epoch_loss, correct) (self1, w1) \<Rightarrow>
             (case true_div correct length_of_dataset of
                Inl e \<Rightarrow> Raise e (self1, w1)
              | Inr epoch_acc \<Rightarrow>
                  (let w2 = emit Track_best w1;
                       (best_acc, self2) =
                          (if epoch_acc > best_acc
                           then (epoch_acc,
                                 self1\<lparr>best_student_model_weights :=
                                   Some (deepcopy (state_dict (heap w2 (student_model self1))))\<rparr>)
                           else (best_acc, self1));
                       loss_arr = loss_arr @ [epoch_loss];
                       w3 = print (Epoch_Loss_Accuracy (ep + 1) epoch_loss epoch_acc) w2
                   in Return (best_acc, loss_arr) (self2, w3)))))"

fun student_epochs ::
  "('w, 't, 'l::{zero,plus}, 'g::{zero,plus}) torch \<Rightarrow>
   (('w, 's, 'x, 'g, 'o) base_class \<Rightarrow> 't net_output \<Rightarrow> 't net_output \<Rightarrow> nat list \<Rightarrow> error + 'l) \<Rightarrow>
   nat \<Rightarrow> nat list \<Rightarrow> rat \<times> 'l list \<Rightarrow>
   ('w, 's, 'x, 'g, 'o) base_class \<times> ('w, 'x, 't, 'l) world \<Rightarrow>
   (rat \<times> 'l list, ('w, 's, 'x, 'g, 'o) base_class \<times> ('w, 'x, 't, 'l) world) result" where
  "student_epochs F kd length_of_dataset [] locals s = Return locals s"
| "student_epochs F kd length_of_dataset (ep # eps) locals s =
     (case student_epoch F kd length_of_dataset ep locals s of
        Raise e s' \<Rightarrow> Raise e s'
      | Return locals' s' \<Rightarrow> student_epochs F kd length_of_dataset eps locals' s')"

definition train_student ::
  "('w, 't, 'l::{zero,plus}, 'g::{zero,plus}) torch \<Rightarrow>
   (('w, 's, 'x, 'g, 'o) base_class \<Rightarrow> 't net_output \<Rightarrow> 't net_output \<Rightarrow> nat list \<Rightarrow> error + 'l) \<Rightarrow>
   ('w, 's, 'x, 'g, 'o) base_class \<Rightarrow>
   nat \<Rightarrow> bool \<Rightarrow> bool \<Rightarrow> string \<Rightarrow> ('w, 'x, 't, 'l) world \<Rightarrow>
   (unit, ('w, 's, 'x, 'g, 'o) base_class \<times> ('w, 'x, 't, 'l) world) result" where
  "train_student F kd self epochs plot_losses save_model save_model_pth w =
     (let w0 = on_heap (teacher_model self) module_eval w;
          w1 = on_heap (student_model self) module_train w0;
          loss_arr = [];
          length_of_dataset = length (dataset (train_loader self));
          best_acc = 0;
          self1 = self\<lparr>best_student_model_weights :=
                    Some (deepcopy (state_dict (heap w1 (student_model self))))\<rparr>;
          w2 = print Training_student w1
      in case student_epochs F kd length_of_dataset [0..<epochs] (best_acc, loss_arr) (self1, w2) of
           Raise e s' \<Rightarrow> Raise e s'
         | Return (best_acc, loss_arr) (self2, w3) \<Rightarrow>
             (case best_student_model_weights self2 of
                None \<Rightarrow> Raise AttributeError (self2, w3)
              | Some best \<Rightarrow>
                  (let w4 = emit (Load_state_dict (student_model self2))
                              (on_heap (student_model self2) (\<lambda>m. load_state_dict m best) w3);
                       w5 = (if save_model
                             then emit (Save save_model_pth)
                                    (torch_save F (state_dict (heap w4 (student_model self2)))
                                       save_model_pth w4)
                             else w4);
                       w6 = (if plot_losses then emit Plot (plt_plot loss_arr w5) else w5)
                   in Return () (self2, w6))))"

subsection \<open>evaluate\<close>

text \<open>The loop of \<open>evaluate\<close>, under \<open>torch.no_grad()\<close>, on the copy \<open>m\<close> of the model.\<close>

fun evaluate_batches ::
  "('w, 't, 'l, 'g) torch \<Rightarrow> string \<Rightarrow> ('w, 'x, 't) nn_module \<Rightarrow> ('x \<times> nat list) list \<Rightarrow> nat \<Rightarrow>
   nat" where
  "evaluate_batches F dev m [] correct = correct"
| "evaluate_batches F dev m ((data, target) # rest) correct =
     (let data = to data dev;
          target = to target dev;
          out = first_output (call m data)
      in evaluate_batches F dev m rest (correct + n_correct F out target))"

definition evaluate ::
  "('w, 't, 'l, 'g) torch \<Rightarrow> ('w, 's, 'x, 'g, 'o) base_class \<Rightarrow> bool \<Rightarrow> ('w, 'x, 't, 'l) world \<Rightarrow>
   (unit, ('w, 's, 'x, 'g, 'o) base_class \<times> ('w, 'x, 't, 'l) world) result" where
  "evaluate F self teacher w =
     (let m = (if teacher then deepcopy (heap w (teacher_model self))
               else deepcopy (heap w (student_model self)));
          m = module_eval m;
          length_of_dataset = length (dataset (val_loader self));
          correct = 0;
          correct = evaluate_batches F (device self) m (batches (val_loader self)) correct;
          w1 = print Dashes w
      in case true_div correct length_of_dataset of
           Inl e \<Rightarrow> Raise e (self, w1)
         | Inr acc \<Rightarrow> Return () (self, print (Accuracy acc) w1))"

section \<open>What the claims speak of\<close>

definition state_of :: "('a, 's) result \<Rightarrow> 's" where
  "state_of r = (case r of Return v s \<Rightarrow> s | Raise e s \<Rightarrow> s)"

definition returned :: "('a, 's) result \<Rightarrow> 'a option" where
  "returned r = (case r of Return v s \<Rightarrow> Some v | Raise e s \<Rightarrow> None)"

definition raised :: "('a, 's) result \<Rightarrow> error option" where
  "raised r = (case r of Return v s \<Rightarrow> None | Raise e s \<Rightarrow> Some e)"






text \<open>The state in which the first epoch of a training run starts.\<close>

definition teacher_start ::
  "('w, 's, 'x, 'g, 'o) base_class \<Rightarrow> ('w, 'x, 't, 'l) world \<Rightarrow>
   ('w, 's, 'x, 'g, 'o) base_class \<times> ('w, 'x, 't, 'l) world" where
  "teacher_start self w =
     (self\<lparr>best_teacher_model_weights := Some (state_dict (heap w (teacher_model self)))\<rparr>,
      print Training_Teacher (on_heap (teacher_model self) module_train w))"

definition student_start ::
  "('w, 's, 'x, 'g, 'o) base_class \<Rightarrow> ('w, 'x, 't, 'l) world \<Rightarrow>
   ('w, 's, 'x, 'g, 'o) base_class \<times> ('w, 'x, 't, 'l) world" where
  "student_start self w =
     (self\<lparr>best_student_model_weights := Some (state_dict (heap w (student_model self)))\<rparr>,
      print Training_student
        (on_heap (student_model self) module_train (on_heap (teacher_model self) module_eval w)))"













text \<open>The number of labelled rows one pass over a loader yields.\<close>

definition rows_yielded :: "('s, 'x) data_loader \<Rightarrow> nat" where
  "rows_yielded ld = sum_list (map (\<lambda>(data, label). length label) (batches ld))"

section \<open>A small instance\<close>

text \<open>
  A two-class model with one weight: the logits of input \<open>v\<close> are \<open>[0, w * v]\<close>. The loss
  counts the wrong rows, and the update rule subtracts the gradient.
\<close>

definition toy_net :: "int \<Rightarrow> bool \<Rightarrow> int list \<Rightarrow> int list list net_output" where
  "toy_net wt tr x = Tensor (map (\<lambda>v. [0, wt * v]) x)"

definition toy_argmax :: "int list list \<Rightarrow> nat list" where
  "toy_argmax t = map (\<lambda>row. case row of [a, b] \<Rightarrow> (if a < b then 1 else 0) | _ \<Rightarrow> 0) t"

definition toy_torch :: "(int, int list list, int, int) torch" where
  "toy_torch =
     \<lparr>argmax = toy_argmax,
      cross_entropy = (\<lambda>t y. int (length (filter (\<lambda>(p, c). p \<noteq> c) (zip (toy_argmax t) y)))),
      grad_of = (\<lambda>l. l),
      pickle = (\<lambda>wt. if wt = 1 then ''one'' else ''other'')\<rparr>"

definition toy_module :: "int \<Rightarrow> (int, int list, int list list) nn_module" where
  "toy_module wt = \<lparr>weights = wt, training = False, net = toy_net\<rparr>"

definition toy_world :: "(int, int list, int list list, int) world" where
  "toy_world =
     \<lparr>heap = (\<lambda>r. toy_module (if r = 0 then 1 else - 1)),
      files = Map.empty, stdout = [], plots = [],
      wall = (\<lambda>n. of_nat n), ticks = 0, events = []\<rparr>"

definition toy_loader :: "(int, int list) data_loader" where
  "toy_loader = \<lparr>dataset = [1, - 2], batches = [([1, - 2], [1, 0])]\<rparr>"

definition toy_empty_loader :: "(int, int list) data_loader" where
  "toy_empty_loader = \<lparr>dataset = [], batches = []\<rparr>"

text \<open>A loader whose sampler draws with replacement more rows than the dataset holds.\<close>

definition toy_resampling_loader :: "(int, int list) data_loader" where
  "toy_resampling_loader = \<lparr>dataset = [1], batches = [([1, 1], [1, 1])]\<rparr>"

definition toy_opt :: "ref \<Rightarrow> (int, int, nat) optimizer" where
  "toy_opt r = \<lparr>params = r, grads = 0, opt_state = 0, update = (\<lambda>st g wt. (Suc st, wt - g))\<rparr>"

definition toy_self :: "(int, int, int list, int, nat) base_class" where
  "toy_self =
     BaseClass_init 0 1 toy_loader toy_loader (toy_opt 0) (toy_opt 1) ''MSE'' 20 (1 / 2) ''cpu''"

definition toy_kd ::
  "(int, int, int list, int, nat) base_class \<Rightarrow> int list list net_output \<Rightarrow>
   int list list net_output \<Rightarrow> nat list \<Rightarrow> error + int" where
  "toy_kd self y_pred_student y_pred_teacher y_true = Inr (- 3)"

definition toy_quantizer :: "(int, int list, unit, unit, unit) quantizer" where
  "toy_quantizer = Quantizer_init 0 () None (Some toy_loader) None None ''cpu''"

section \<open>Evaluating the small instance\<close>

lemmas toy_defs = toy_self_def BaseClass_init_def toy_loader_def toy_world_def toy_module_def
  toy_opt_def toy_torch_def toy_argmax_def toy_net_def toy_kd_def toy_quantizer_def Quantizer_init_def
  toy_empty_loader_def toy_resampling_loader_def

lemmas run_defs = train_teacher_def train_student_def teacher_epoch_def student_epoch_def
  teacher_batch_def student_batch_def step_def zero_grad_def backward_def on_heap_def emit_def
  print_def plt_plot_def torch_save_def load_state_dict_def state_dict_def module_train_def
  module_eval_def call_def first_output_def n_correct_def true_div_def deepcopy_def to_def Let_def
  teacher_start_def student_start_def numeral_2_eq_2



section \<open>Rules for the methods of Quantizer\<close>

lemma state_of_simps [simp]:
  "state_of (Return v s) = s" "state_of (Raise e s) = s"
  "returned (Return v s) = Some v" "returned (Raise e s) = None"
  "raised (Return v s) = None" "raised (Raise e s) = Some e"
  by (simp_all add: state_of_def returned_def raised_def)

lemma get_size_of_model_eq:
  "get_size_of_model F self m w =
     Return (of_nat (length (pickle F (state_dict (heap w m)))) / 1000000)
       (self, w\<lparr>files := (files w)(''temp.p'' := None)\<rparr>)"
  by (simp add: get_size_of_model_def torch_save_def getsize_def os_remove_def Let_def)


lemma evaluate_model_eq:
  "evaluate_model F self m w =
     (case test_loader self of
        None \<Rightarrow> Raise AttributeError (self, on_heap m module_eval w)
      | Some ld \<Rightarrow>
          if dataset ld = [] then Raise ZeroDivisionError (self, on_heap m module_eval w)
          else Return (of_nat (count_correct F (module_eval (heap w m)) (batches ld) 0)
                        / of_nat (length (dataset ld)))
                 (self, on_heap m module_eval w))"
  by (simp add: evaluate_model_def true_div_def on_heap_def Let_def split: option.splits)



section \<open>The claims about the constructors, the template methods and Quantizer\<close>

text \<open>
  C4. The constructors of Quantizer and BaseClass only store their arguments: every
  argument is found unchanged in the attribute named after it (the distillation weight
  \<open>distil_weight\<close> in the attribute the source spells \<open>distl_weight\<close>; the model also
  in \<open>quantized_model\<close>), and neither touches anything outside the instance.
\<close>

theorem constructors_store_arguments:
  "model (Quantizer_init m q tr te opt c d) = m \<and>
   quantized_model (Quantizer_init m q tr te opt c d) = m \<and>
   qconfig (Quantizer_init m q tr te opt c d) = q \<and>
   quantizer.train_loader (Quantizer_init m q tr te opt c d) = tr \<and>
   test_loader (Quantizer_init m q tr te opt c d) = te \<and>
   optimizer (Quantizer_init m q tr te opt c d) = opt \<and>
   criterion (Quantizer_init m q tr te opt c d) = c \<and>
   quantizer.device (Quantizer_init m q tr te opt c d) = d \<and>
   teacher_model (BaseClass_init tm sm trl vl ot os lo tp dw dv) = tm \<and>
   student_model (BaseClass_init tm sm trl vl ot os lo tp dw dv) = sm \<and>
   base_class.train_loader (BaseClass_init tm sm trl vl ot os lo tp dw dv) = trl \<and>
   val_loader (BaseClass_init tm sm trl vl ot os lo tp dw dv) = vl \<and>
   optimizer_teacher (BaseClass_init tm sm trl vl ot os lo tp dw dv) = ot \<and>
   optimizer_student (BaseClass_init tm sm trl vl ot os lo tp dw dv) = os \<and>
   loss (BaseClass_init tm sm trl vl ot os lo tp dw dv) = lo \<and>
   temp (BaseClass_init tm sm trl vl ot os lo tp dw dv) = tp \<and>
   distl_weight (BaseClass_init tm sm trl vl ot os lo tp dw dv) = dw \<and>
   base_class.device (BaseClass_init tm sm trl vl ot os lo tp dw dv) = dv"
  by (simp add: Quantizer_init_def BaseClass_init_def)

text \<open>
  C6. The two template methods raise: \<open>quantize\<close> on any Quantizer and \<open>calculate_kd_loss\<close>
  on any BaseClass raise NotImplementedError and leave the instance as it was. A training
  batch of a BaseClass that did not override \<open>calculate_kd_loss\<close> stops there, the
  instance unchanged and only the two forward passes before the call logged.
\<close>

theorem template_methods_raise:
  "quantize q v = Raise NotImplementedError (q, v) \<and>
   calculate_kd_loss self y_pred_student y_pred_teacher y_true = Inl NotImplementedError \<and>
   student_batch F calculate_kd_loss batch acc (self, w) =
     Raise NotImplementedError
       (self, emit (Forward (teacher_model self)) (emit (Forward (student_model self)) w))"
  by (simp add: quantize_def calculate_kd_loss_def student_batch_def Let_def split: prod.splits)

text \<open>
  C7 (amended). \<open>_get_size_of_model\<close> returns the number of bytes of the model's pickled
  state dict divided by 1e6, and leaves the file system as it was before the call except
  that no file \<open>temp.p\<close> exists afterwards: unchanged when there was no such file.
\<close>

theorem get_size_of_model_result:
  "get_size_of_model F self m w =
     Return (of_nat (length (pickle F (state_dict (heap w m)))) / 1000000)
       (self, w\<lparr>files := (files w)(''temp.p'' := None)\<rparr>) \<and>
   (files w ''temp.p'' = None \<longrightarrow> state_of (get_size_of_model F self m w) = (self, w))"
  by (auto simp add: get_size_of_model_eq fun_upd_idem)

theorem get_size_of_model_result_witness:
  "files toy_world ''temp.p'' = None \<and>
   get_size_of_model toy_torch toy_quantizer 0 toy_world =
     Return (3 / 1000000) (toy_quantizer, toy_world)"
  using get_size_of_model_result[of toy_torch toy_quantizer 0 toy_world]
  by (simp add: toy_world_def toy_torch_def toy_module_def state_dict_def)

text \<open>
  The claim as stated fails where a file \<open>temp.p\<close> exists before the call: the call
  overwrites it and then deletes it.
\<close>

theorem get_size_of_model_deletes_earlier_file:
  "files (toy_world\<lparr>files := [''temp.p'' \<mapsto> ''kept'']\<rparr>) ''temp.p'' = Some ''kept'' \<and>
   files (snd (state_of (get_size_of_model toy_torch toy_quantizer 0
      (toy_world\<lparr>files := [''temp.p'' \<mapsto> ''kept'']\<rparr>)))) ''temp.p'' = None"
  by (simp add: get_size_of_model_eq)



section \<open>The claims about evaluation\<close>

lemma evaluate_batches_eq: "evaluate_batches F dev m bs c = count_correct F m bs c"
  by (induction bs arbitrary: c) (auto simp: to_def Let_def)

lemma evaluate_eq:
  "evaluate F self teacher w =
    (let acc = of_nat (evaluate_batches F (base_class.device self)
                   (module_eval (heap w (if teacher then teacher_model self else student_model self)))
                   (batches (val_loader self)) 0) / of_nat (length (dataset (val_loader self)))
     in if dataset (val_loader self) = [] then Raise ZeroDivisionError (self, print Dashes w)
     else Return () (self, print (Accuracy acc) (print Dashes w)))"
  by (simp add: evaluate_def true_div_def deepcopy_def Let_def)

text \<open>
  C9. \<open>evaluate\<close> works on a deep copy of the model it is asked about: for either value of
  \<open>teacher\<close> the instance and the heap of models (parameters and train/eval flags) are as
  before; the only change is on standard output, the dashes and, when the dataset is not
  empty, the accuracy.
\<close>

theorem evaluate_changes_only_stdout:
  "fst (state_of (evaluate F self teacher w)) = self \<and>
   heap (snd (state_of (evaluate F self teacher w))) = heap w \<and>
   snd (state_of (evaluate F self teacher w)) =
     w\<lparr>stdout := stdout w @
        (if dataset (val_loader self) = [] then [Dashes]
         else [Dashes,
               Accuracy
                 (of_nat (evaluate_batches F (base_class.device self)
                    (module_eval (heap w (if teacher then teacher_model self else student_model self)))
                    (batches (val_loader self)) 0)
                  / of_nat (length (dataset (val_loader self))))])\<rparr>"
  by (simp add: evaluate_eq print_def Let_def)

lemma n_correct_le: "n_correct F out label \<le> length label"
  by (simp add: n_correct_def Let_def le_trans[OF length_filter_le])

lemma count_correct_le:
  "count_correct F m bs c \<le> c + sum_list (map (\<lambda>(data, label). length label) bs)"
proof (induction bs arbitrary: c)
  case Nil
  then show ?case by simp
next
  case (Cons b bs)
  obtain data label where b: "b = (data, label)" by (cases b)
  have "count_correct F m (b # bs) c =
      count_correct F m bs (c + n_correct F (first_output (call m data)) label)"
    by (simp add: b Let_def)
  also have "\<dots> \<le> (c + n_correct F (first_output (call m data)) label)
       + sum_list (map (\<lambda>(data, label). length label) bs)"
    by (rule Cons.IH)
  also have "\<dots> \<le> c + sum_list (map (\<lambda>(data, label). length label) (b # bs))"
    using n_correct_le[of F "first_output (call m data)" label] by (simp add: b)
  finally show ?case .
qed

lemma acc_bounds:
  fixes c n :: nat
  assumes "n \<noteq> 0"
  shows "(0::rat) \<le> of_nat c / of_nat n" and "c \<le> n \<Longrightarrow> (of_nat c / of_nat n :: rat) \<le> 1"
  using assms by simp_all

text \<open>
  C10 (amended). \<open>_evaluate_model\<close> and \<open>evaluate\<close> divide the number of correct
  predictions by the length of the dataset without a guard. On a non-empty dataset the
  accuracy is a value that is at least 0, and at most 1 when one pass over the loader
  yields no more labelled rows than the dataset holds; on an empty dataset the division
  raises ZeroDivisionError.
\<close>

theorem accuracy_in_unit_interval:
  "(test_loader q = Some ld \<longrightarrow>
      (dataset ld \<noteq> [] \<longrightarrow>
         (\<exists>acc. evaluate_model F q m w = Return acc (q, on_heap m module_eval w) \<and> 0 \<le> acc \<and>
            (rows_yielded ld \<le> length (dataset ld) \<longrightarrow> acc \<le> 1))) \<and>
      (dataset ld = [] \<longrightarrow>
         evaluate_model F q m w = Raise ZeroDivisionError (q, on_heap m module_eval w))) \<and>
   (dataset (val_loader self) \<noteq> [] \<longrightarrow>
      (\<exists>acc. evaluate F self teacher v = Return () (self, print (Accuracy acc) (print Dashes v)) \<and>
         0 \<le> acc \<and>
         (rows_yielded (val_loader self) \<le> length (dataset (val_loader self)) \<longrightarrow> acc \<le> 1))) \<and>
   (dataset (val_loader self) = [] \<longrightarrow>
      evaluate F self teacher v = Raise ZeroDivisionError (self, print Dashes v))"
proof -
  have a: "test_loader q = Some ld \<longrightarrow>
      (dataset ld \<noteq> [] \<longrightarrow>
         (\<exists>acc. evaluate_model F q m w = Return acc (q, on_heap m module_eval w) \<and> 0 \<le> acc \<and>
            (rows_yielded ld \<le> length (dataset ld) \<longrightarrow> acc \<le> 1))) \<and>
      (dataset ld = [] \<longrightarrow>
         evaluate_model F q m w = Raise ZeroDivisionError (q, on_heap m module_eval w))"
  proof (intro impI conjI)
    assume l: "test_loader q = Some ld" and "dataset ld = []"
    then show "evaluate_model F q m w = Raise ZeroDivisionError (q, on_heap m module_eval w)"
      by (simp add: evaluate_model_eq)
  next
    assume l: "test_loader q = Some ld" and ne: "dataset ld \<noteq> []"
    let ?c = "count_correct F (module_eval (heap w m)) (batches ld) 0"
    let ?acc = "of_nat ?c / of_nat (length (dataset ld)) :: rat"
    have n: "length (dataset ld) \<noteq> 0" using ne by simp
    have r: "evaluate_model F q m w = Return ?acc (q, on_heap m module_eval w)"
      using l ne by (simp add: evaluate_model_eq)
    have c: "?c \<le> rows_yielded ld"
      using count_correct_le[of F "module_eval (heap w m)" "batches ld" 0]
      by (simp add: rows_yielded_def)
    have "rows_yielded ld \<le> length (dataset ld) \<longrightarrow> ?acc \<le> 1"
      using acc_bounds(2)[OF n, of ?c] c by auto
    with r acc_bounds(1)[OF n, of ?c]
    show "\<exists>acc. evaluate_model F q m w = Return acc (q, on_heap m module_eval w) \<and> 0 \<le> acc \<and>
            (rows_yielded ld \<le> length (dataset ld) \<longrightarrow> acc \<le> 1)" by blast
  qed
  have b: "dataset (val_loader self) \<noteq> [] \<longrightarrow>
      (\<exists>acc. evaluate F self teacher v = Return () (self, print (Accuracy acc) (print Dashes v)) \<and>
         0 \<le> acc \<and>
         (rows_yielded (val_loader self) \<le> length (dataset (val_loader self)) \<longrightarrow> acc \<le> 1))"
  proof
    assume ne: "dataset (val_loader self) \<noteq> []"
    let ?m = "module_eval (heap v (if teacher then teacher_model self else student_model self))"
    let ?c = "evaluate_batches F (base_class.device self) ?m (batches (val_loader self)) 0"
    let ?acc = "of_nat ?c / of_nat (length (dataset (val_loader self))) :: rat"
    have n: "length (dataset (val_loader self)) \<noteq> 0" using ne by simp
    have r: "evaluate F self teacher v = Return () (self, print (Accuracy ?acc) (print Dashes v))"
      using ne by (simp add: evaluate_eq Let_def)
    have c: "?c \<le> rows_yielded (val_loader self)"
      using count_correct_le[of F ?m "batches (val_loader self)" 0]
      by (simp add: rows_yielded_def evaluate_batches_eq)
    have "rows_yielded (val_loader self) \<le> length (dataset (val_loader self)) \<longrightarrow> ?acc \<le> 1"
      using acc_bounds(2)[OF n, of ?c] c by auto
    with r acc_bounds(1)[OF n, of ?c]
    show "\<exists>acc. evaluate F self teacher v = Return () (self, print (Accuracy acc) (print Dashes v)) \<and>
         0 \<le> acc \<and>
         (rows_yielded (val_loader self) \<le> length (dataset (val_loader self)) \<longrightarrow> acc \<le> 1)"
      by blast
  qed
  have c: "dataset (val_loader self) = [] \<longrightarrow>
      evaluate F self teacher v = Raise ZeroDivisionError (self, print Dashes v)"
    by (simp add: evaluate_eq Let_def)
  from a b c show ?thesis by blast
qed

theorem accuracy_in_unit_interval_witness:
  "test_loader toy_quantizer = Some toy_loader \<and> dataset toy_loader \<noteq> [] \<and>
   rows_yielded toy_loader \<le> length (dataset toy_loader) \<and>
   (\<exists>acc. evaluate_model toy_torch toy_quantizer 0 toy_world =
        Return acc (toy_quantizer, on_heap 0 module_eval toy_world) \<and> 0 \<le> acc \<and> acc \<le> 1) \<and>
   dataset (val_loader toy_self) \<noteq> [] \<and>
   rows_yielded (val_loader toy_self) \<le> length (dataset (val_loader toy_self)) \<and>
   (\<exists>acc. evaluate toy_torch toy_self False toy_world =
        Return () (toy_self, print (Accuracy acc) (print Dashes toy_world)) \<and> 0 \<le> acc \<and> acc \<le> 1) \<and>
   test_loader (toy_quantizer\<lparr>test_loader := Some toy_empty_loader\<rparr>) = Some toy_empty_loader \<and>
   dataset toy_empty_loader = [] \<and>
   evaluate_model toy_torch (toy_quantizer\<lparr>test_loader := Some toy_empty_loader\<rparr>) 0 toy_world =
     Raise ZeroDivisionError (toy_quantizer\<lparr>test_loader := Some toy_empty_loader\<rparr>,
       on_heap 0 module_eval toy_world) \<and>
   dataset (val_loader (toy_self\<lparr>val_loader := toy_empty_loader\<rparr>)) = [] \<and>
   evaluate toy_torch (toy_self\<lparr>val_loader := toy_empty_loader\<rparr>) True toy_world =
     Raise ZeroDivisionError (toy_self\<lparr>val_loader := toy_empty_loader\<rparr>, print Dashes toy_world)"
proof -
  have h1: "test_loader toy_quantizer = Some toy_loader" by (simp add: toy_defs)
  have h2: "dataset toy_loader \<noteq> []" by (simp add: toy_defs)
  have h3: "rows_yielded toy_loader \<le> length (dataset toy_loader)"
    by (simp add: toy_defs rows_yielded_def)
  have h4: "dataset (val_loader toy_self) \<noteq> []" by (simp add: toy_defs)
  have h5: "rows_yielded (val_loader toy_self) \<le> length (dataset (val_loader toy_self))"
    by (simp add: toy_defs rows_yielded_def)
  have h6: "test_loader (toy_quantizer\<lparr>test_loader := Some toy_empty_loader\<rparr>) = Some toy_empty_loader"
    by simp
  have h7: "dataset toy_empty_loader = []" by (simp add: toy_defs)
  have h8: "dataset (val_loader (toy_self\<lparr>val_loader := toy_empty_loader\<rparr>)) = []"
    by (simp add: toy_defs)
  note a = accuracy_in_unit_interval[where q=toy_quantizer and ld=toy_loader and F=toy_torch and m=0 and w=toy_world
      and self=toy_self and teacher=False and v=toy_world]
  note b = accuracy_in_unit_interval[where q="toy_quantizer\<lparr>test_loader := Some toy_empty_loader\<rparr>" and ld=toy_empty_loader
      and F=toy_torch and m=0 and w=toy_world
      and self="toy_self\<lparr>val_loader := toy_empty_loader\<rparr>" and teacher=True and v=toy_world]
  from a h1 h2 h3 have c1: "\<exists>acc. evaluate_model toy_torch toy_quantizer 0 toy_world =
        Return acc (toy_quantizer, on_heap 0 module_eval toy_world) \<and> 0 \<le> acc \<and> acc \<le> 1"
    by blast
  from a h4 h5 have c2: "\<exists>acc. evaluate toy_torch toy_self False toy_world =
        Return () (toy_self, print (Accuracy acc) (print Dashes toy_world)) \<and> 0 \<le> acc \<and> acc \<le> 1"
    by blast
  from b h6 h7 have c3: "evaluate_model toy_torch (toy_quantizer\<lparr>test_loader := Some toy_empty_loader\<rparr>) 0 toy_world =
     Raise ZeroDivisionError (toy_quantizer\<lparr>test_loader := Some toy_empty_loader\<rparr>,
       on_heap 0 module_eval toy_world)"
    by blast
  from b h8 have c4: "evaluate toy_torch (toy_self\<lparr>val_loader := toy_empty_loader\<rparr>) True toy_world =
     Raise ZeroDivisionError (toy_self\<lparr>val_loader := toy_empty_loader\<rparr>, print Dashes toy_world)"
    by blast
  from h1 h2 h3 c1 h4 h5 c2 h6 h7 c3 h8 c4 show ?thesis by blast
qed

text \<open>
  The claim as stated fails for a loader whose sampler draws more rows than the dataset
  holds: two correct rows over a dataset of one item give accuracy 2.
\<close>

theorem accuracy_above_one:
  "dataset toy_resampling_loader \<noteq> [] \<and>
   returned (evaluate_model toy_torch (toy_quantizer\<lparr>test_loader := Some toy_resampling_loader\<rparr>) 0
      toy_world) = Some 2 \<and>
   stdout (snd (state_of (evaluate toy_torch (toy_self\<lparr>val_loader := toy_resampling_loader\<rparr>) True
      toy_world))) = [Dashes, Accuracy 2]"
  by (simp add: toy_defs evaluate_model_def evaluate_def run_defs)

section \<open>Rules for the training loops\<close>


lemma emit_simps [simp]:
  "heap (emit e w) = heap w" "stdout (emit e w) = stdout w" "files (emit e w) = files w"
  "plots (emit e w) = plots w" "events (emit e w) = events w @ [e]"
  by (simp_all add: emit_def)

lemma print_simps [simp]:
  "heap (print msg w) = heap w" "stdout (print msg w) = stdout w @ [msg]"
  "files (print msg w) = files w" "plots (print msg w) = plots w" "events (print msg w) = events w"
  by (simp_all add: print_def)








































section \<open>The claims about training\<close>










end
